theory Spec2Isabelle
  imports Main "HOL-Library.Char_ord" "HOL-Library.List_Lexorder" "HOL-Library.Product_Lexorder"
begin

section \<open>The LSP cache (internal/lsp/cache/cache.go)\<close>

text \<open>
  The Go struct \<^verbatim>\<open>Cache\<close> holds six maps keyed by file URI, each guarded by a mutex of
  its own. The maps are modelled as partial functions; the mutexes carry no data and are
  not fields of the record: every method body below is one critical section, except
  \<^verbatim>\<open>Delete\<close>, which takes and releases the six locks one after the other.

  The element types \<^verbatim>\<open>ast.Module\<close>, \<^verbatim>\<open>types.Diagnostic\<close> and
  \<^verbatim>\<open>types.BuiltinPosition\<close> are declared outside cache.go; they are the type
  parameters \<open>'m\<close>, \<open>'d\<close> and \<open>'b\<close>. A module is stored through a pointer, which may be nil:
  \<open>'m option\<close>, \<open>None\<close> for nil. A slice is a list (a nil slice and an empty slice are both
  \<open>[]\<close>: \<^verbatim>\<open>len\<close> and \<^verbatim>\<open>append\<close> do not tell them apart). The key type
  \<^verbatim>\<open>uint\<close> of the inner position map is \<open>nat\<close>: no arithmetic is done on it.
\<close>

record ('m, 'd, 'b) Cache =
  fileContents :: "string \<rightharpoonup> string"
  modules :: "string \<rightharpoonup> 'm option"
  diagnosticsFile :: "string \<rightharpoonup> 'd list"
  diagnosticsAggregate :: "string \<rightharpoonup> 'd list"
  diagnosticsParseErrors :: "string \<rightharpoonup> 'd list"
  builtinPositionsFile :: "string \<rightharpoonup> (nat \<rightharpoonup> 'b list)"

definition NewCache :: "('m, 'd, 'b) Cache" where
  "NewCache =
     \<lparr> fileContents = Map.empty,
       modules = Map.empty,
       diagnosticsFile = Map.empty,
       diagnosticsAggregate = Map.empty,
       diagnosticsParseErrors = Map.empty,
       builtinPositionsFile = Map.empty \<rparr>"

text \<open>
  Go's two-valued map read \<^verbatim>\<open>val, ok := m[uri]\<close> gives the zero value of the element type
  and \<^verbatim>\<open>false\<close> when the key is absent. \<open>comma_ok zero r\<close> is that pair.
\<close>

definition comma_ok :: "'v \<Rightarrow> 'v option \<Rightarrow> 'v \<times> bool" where
  "comma_ok zero r = (case r of None \<Rightarrow> (zero, False) | Some val \<Rightarrow> (val, True))"

definition GetAllFiles :: "('m, 'd, 'b) Cache \<Rightarrow> (string \<rightharpoonup> string)" where
  "GetAllFiles c = fileContents c"

definition GetFileContents :: "('m, 'd, 'b) Cache \<Rightarrow> string \<Rightarrow> string \<times> bool" where
  "GetFileContents c uri = comma_ok [] (fileContents c uri)"

definition SetFileContents :: "('m, 'd, 'b) Cache \<Rightarrow> string \<Rightarrow> string \<Rightarrow> ('m, 'd, 'b) Cache" where
  "SetFileContents c uri content = c\<lparr>fileContents := (fileContents c)(uri \<mapsto> content)\<rparr>"

definition GetAllModules :: "('m, 'd, 'b) Cache \<Rightarrow> (string \<rightharpoonup> 'm option)" where
  "GetAllModules c = modules c"

definition GetModule :: "('m, 'd, 'b) Cache \<Rightarrow> string \<Rightarrow> 'm option \<times> bool" where
  "GetModule c uri = comma_ok None (modules c uri)"

definition SetModule :: "('m, 'd, 'b) Cache \<Rightarrow> string \<Rightarrow> 'm option \<Rightarrow> ('m, 'd, 'b) Cache" where
  "SetModule c uri module = c\<lparr>modules := (modules c)(uri \<mapsto> module)\<rparr>"

definition GetFileDiagnostics :: "('m, 'd, 'b) Cache \<Rightarrow> string \<Rightarrow> 'd list \<times> bool" where
  "GetFileDiagnostics c uri = comma_ok [] (diagnosticsFile c uri)"

definition SetFileDiagnostics :: "('m, 'd, 'b) Cache \<Rightarrow> string \<Rightarrow> 'd list \<Rightarrow> ('m, 'd, 'b) Cache" where
  "SetFileDiagnostics c uri diags = c\<lparr>diagnosticsFile := (diagnosticsFile c)(uri \<mapsto> diags)\<rparr>"

definition ClearFileDiagnostics :: "('m, 'd, 'b) Cache \<Rightarrow> ('m, 'd, 'b) Cache" where
  "ClearFileDiagnostics c = c\<lparr>diagnosticsFile := Map.empty\<rparr>"

definition GetAggregateDiagnostics :: "('m, 'd, 'b) Cache \<Rightarrow> string \<Rightarrow> 'd list \<times> bool" where
  "GetAggregateDiagnostics c uri = comma_ok [] (diagnosticsAggregate c uri)"

definition SetAggregateDiagnostics :: "('m, 'd, 'b) Cache \<Rightarrow> string \<Rightarrow> 'd list \<Rightarrow> ('m, 'd, 'b) Cache" where
  "SetAggregateDiagnostics c uri diags =
     c\<lparr>diagnosticsAggregate := (diagnosticsAggregate c)(uri \<mapsto> diags)\<rparr>"

definition ClearAggregateDiagnostics :: "('m, 'd, 'b) Cache \<Rightarrow> ('m, 'd, 'b) Cache" where
  "ClearAggregateDiagnostics c = c\<lparr>diagnosticsAggregate := Map.empty\<rparr>"

definition GetParseErrors :: "('m, 'd, 'b) Cache \<Rightarrow> string \<Rightarrow> 'd list \<times> bool" where
  "GetParseErrors c uri = comma_ok [] (diagnosticsParseErrors c uri)"

definition SetParseErrors :: "('m, 'd, 'b) Cache \<Rightarrow> string \<Rightarrow> 'd list \<Rightarrow> ('m, 'd, 'b) Cache" where
  "SetParseErrors c uri diags =
     c\<lparr>diagnosticsParseErrors := (diagnosticsParseErrors c)(uri \<mapsto> diags)\<rparr>"

definition GetBuiltinPositions ::
  "('m, 'd, 'b) Cache \<Rightarrow> string \<Rightarrow> (nat \<rightharpoonup> 'b list) \<times> bool" where
  "GetBuiltinPositions c uri = comma_ok Map.empty (builtinPositionsFile c uri)"

definition SetBuiltinPositions ::
  "('m, 'd, 'b) Cache \<Rightarrow> string \<Rightarrow> (nat \<rightharpoonup> 'b list) \<Rightarrow> ('m, 'd, 'b) Cache" where
  "SetBuiltinPositions c uri positions =
     c\<lparr>builtinPositionsFile := (builtinPositionsFile c)(uri \<mapsto> positions)\<rparr>"

definition GetAllBuiltInPositions ::
  "('m, 'd, 'b) Cache \<Rightarrow> (string \<rightharpoonup> (nat \<rightharpoonup> 'b list))" where
  "GetAllBuiltInPositions c = builtinPositionsFile c"

text \<open>
  \<^verbatim>\<open>GetAllDiagnosticsForURI\<close>: the parse errors alone when there are some, else the aggregate
  diagnostics followed by the file diagnostics, appended to a fresh empty slice.
\<close>

definition GetAllDiagnosticsForURI :: "('m, 'd, 'b) Cache \<Rightarrow> string \<Rightarrow> 'd list" where
  "GetAllDiagnosticsForURI c uri =
     (let (parseDiags, ok) = GetParseErrors c uri in
      if ok \<and> length parseDiags > 0 then parseDiags
      else
        let allDiags = [];
            (aggDiags, ok) = GetAggregateDiagnostics c uri;
            allDiags = (if ok then allDiags @ aggDiags else allDiags);
            (fileDiags, ok) = GetFileDiagnostics c uri;
            allDiags = (if ok then allDiags @ fileDiags else allDiags)
        in allDiags)"

text \<open>
  \<^verbatim>\<open>Delete\<close> runs six critical sections in a fixed order, each under the lock of the one
  map it writes, and holds no lock between two of them. \<open>Delete_steps uri\<close> lists them in
  the order of the source; \<open>Delete\<close> runs them all. \<open>Delete_after k\<close> is the cache as it
  stands when the first \<open>k\<close> critical sections have run: the states another goroutine can
  read while \<^verbatim>\<open>Delete\<close> is between two locks.
\<close>

definition Delete_steps ::
  "string \<Rightarrow> (('m, 'd, 'b) Cache \<Rightarrow> ('m, 'd, 'b) Cache) list" where
  "Delete_steps uri =
     [ \<lambda>c. c\<lparr>fileContents := (fileContents c)(uri := None)\<rparr>,
       \<lambda>c. c\<lparr>modules := (modules c)(uri := None)\<rparr>,
       \<lambda>c. c\<lparr>diagnosticsFile := (diagnosticsFile c)(uri := None)\<rparr>,
       \<lambda>c. c\<lparr>diagnosticsAggregate := (diagnosticsAggregate c)(uri := None)\<rparr>,
       \<lambda>c. c\<lparr>diagnosticsParseErrors := (diagnosticsParseErrors c)(uri := None)\<rparr>,
       \<lambda>c. c\<lparr>builtinPositionsFile := (builtinPositionsFile c)(uri := None)\<rparr> ]"

definition run_steps :: "('s \<Rightarrow> 's) list \<Rightarrow> 's \<Rightarrow> 's" where
  "run_steps steps s = fold (\<lambda>step t. step t) steps s"

definition Delete :: "('m, 'd, 'b) Cache \<Rightarrow> string \<Rightarrow> ('m, 'd, 'b) Cache" where
  "Delete c uri = run_steps (Delete_steps uri) c"

definition Delete_after :: "nat \<Rightarrow> ('m, 'd, 'b) Cache \<Rightarrow> string \<Rightarrow> ('m, 'd, 'b) Cache" where
  "Delete_after k c uri = run_steps (take k (Delete_steps uri)) c"

text \<open>
  \<^verbatim>\<open>UpdateCacheForURIFromDisk\<close>. \<^verbatim>\<open>os.ReadFile\<close> is the parameter \<open>readFile\<close>: the
  error of the operating system (\<open>Inl\<close>) or the bytes of the file. The Go function returns
  a string and an error; on the error path the string is empty, so the result is the sum
  of the wrapped error and the string, next to the cache as the call leaves it.
\<close>

datatype 'e error = FailedToReadFile 'e

definition UpdateCacheForURIFromDisk ::
  "(string \<Rightarrow> 'e + string) \<Rightarrow> ('m, 'd, 'b) Cache \<Rightarrow> string \<Rightarrow> string
     \<Rightarrow> ('e error + string) \<times> ('m, 'd, 'b) Cache" where
  "UpdateCacheForURIFromDisk readFile cache uri path =
     (case readFile path of
        Inl err \<Rightarrow> (Inl (FailedToReadFile err), cache)
      | Inr content \<Rightarrow>
          (let currentContent = content;
               (cachedContent, ok) = GetFileContents cache uri
           in if ok \<and> cachedContent = currentContent then (Inr cachedContent, cache)
              else (Inr currentContent, SetFileContents cache uri currentContent)))"

text \<open>
  The functions of cache.go that write to a cache, as calls: the setters, the two clear
  functions, \<^verbatim>\<open>Delete\<close> and \<^verbatim>\<open>UpdateCacheForURIFromDisk\<close>. The getters return
  what they read and write nothing. \<open>run_call\<close> is the cache after the call.
\<close>

datatype ('m, 'd, 'b, 'e) cache_call =
    CallSetFileContents string string
  | CallSetModule string "'m option"
  | CallSetFileDiagnostics string "'d list"
  | CallClearFileDiagnostics
  | CallSetAggregateDiagnostics string "'d list"
  | CallClearAggregateDiagnostics
  | CallSetParseErrors string "'d list"
  | CallSetBuiltinPositions string "nat \<rightharpoonup> 'b list"
  | CallDelete string
  | CallUpdateCacheForURIFromDisk "string \<Rightarrow> 'e + string" string string

fun run_call :: "('m, 'd, 'b, 'e) cache_call \<Rightarrow> ('m, 'd, 'b) Cache \<Rightarrow> ('m, 'd, 'b) Cache" where
  "run_call (CallSetFileContents uri content) c = SetFileContents c uri content"
| "run_call (CallSetModule uri module) c = SetModule c uri module"
| "run_call (CallSetFileDiagnostics uri diags) c = SetFileDiagnostics c uri diags"
| "run_call CallClearFileDiagnostics c = ClearFileDiagnostics c"
| "run_call (CallSetAggregateDiagnostics uri diags) c = SetAggregateDiagnostics c uri diags"
| "run_call CallClearAggregateDiagnostics c = ClearAggregateDiagnostics c"
| "run_call (CallSetParseErrors uri diags) c = SetParseErrors c uri diags"
| "run_call (CallSetBuiltinPositions uri positions) c = SetBuiltinPositions c uri positions"
| "run_call (CallDelete uri) c = Delete c uri"
| "run_call (CallUpdateCacheForURIFromDisk readFile uri path) c =
     snd (UpdateCacheForURIFromDisk readFile c uri path)"

section \<open>The aggregation engine and the missing-metadata rule\<close>

text \<open>
  The repository holds the tests of the aggregate rule \<^verbatim>\<open>missing-metadata\<close>
  (\<^verbatim>\<open>missing-metadata_test\<close>); the rule itself, the linter that runs it and the server
  code that feeds it from the cache are not among the sources. This section models them
  from the specification (4.5, 4.6 and the data model), each definition saying so. The
  tests fix the shape of a contribution and the reports expected for six inputs; the
  model is run on those inputs below.
\<close>

text \<open>
  Modelled from the spec: the locator of a fact. The rule's \<^verbatim>\<open>aggregate\<close> step is
  missing; the format test shows a locator as \<^verbatim>\<open>row:col:base64(text)\<close>, which is kept
  here decoded, as row, column and text. A location of a report adds the file in front.
\<close>

type_synonym locator = "nat \<times> nat \<times> string"

type_synonym location = "string \<times> locator"

text \<open>
  Modelled from the spec: the AggregateContribution of one file for the category
  missing-metadata (the rule's \<^verbatim>\<open>aggregate\<close> step is missing): per rule defined in the
  package, whether the rule carries metadata, and the location of its head. In the
  format test a rule \<open>r\<close> with \<^verbatim>\<open>rule_annotations[r] = {b}\<close> and
  \<^verbatim>\<open>rule_locations[r] = l\<close> is the fact \<open>(r, b, l)\<close>.
\<close>

record rule_contribution =
  rule_path :: string
  rule_annotated :: bool
  rule_location :: locator

text \<open>
  Modelled from the spec: the AggregateContribution of one file (the rule's
  \<^verbatim>\<open>aggregate\<close> step is missing): the provenance (source file and package path), whether
  the package carries metadata, the location of the package keyword, and the facts of the
  rules.
\<close>

record contribution =
  source_file :: string
  package_path :: "string list"
  package_annotated :: bool
  package_location :: locator
  rule_contributions :: "rule_contribution list"

text \<open>
  Modelled from the spec: what the configuration gives a report of the rule (the
  configuration loader is missing): the level, and the address of the documentation.
\<close>

record rule_config =
  config_level :: string
  config_docs_url :: string

text \<open>
  Modelled from the spec: a Diagnostic of the aggregate rule (the rule's
  \<^verbatim>\<open>aggregate_report\<close> step is missing), with the fields the tests compare.
\<close>

record violation =
  category :: string
  title :: string
  description :: string
  level :: string
  location :: location
  related_resources :: "(string \<times> string) list"

text \<open>
  Modelled from the spec: the diagnostic of the category missing-metadata at a location
  (the rule's \<^verbatim>\<open>aggregate_report\<close> step is missing); the constant fields are those of the
  reports the tests expect.
\<close>

definition result_fail :: "rule_config \<Rightarrow> location \<Rightarrow> violation" where
  "result_fail cfg loc =
     \<lparr> category = ''custom'',
       title = ''missing-metadata'',
       description = ''Package or rule missing metadata'',
       level = config_level cfg,
       location = loc,
       related_resources = [(''documentation'', config_docs_url cfg)] \<rparr>"

text \<open>
  Modelled from the spec: the location of a diagnostic among those of the contributors
  (the rule's \<^verbatim>\<open>aggregate_report\<close> step is missing), "chosen deterministically, e.g.
  lexicographically smallest file identifier among contributors": the least location,
  the file compared first, then row, column and text.
\<close>

definition first_location :: "location list \<Rightarrow> location" where
  "first_location locs = Min (set locs)"

text \<open>
  Modelled from the spec: the contributions for one package path, merged across files
  (the rule's \<^verbatim>\<open>aggregate_report\<close> step is missing).
\<close>

definition package_items :: "contribution list \<Rightarrow> string list \<Rightarrow> contribution list" where
  "package_items aggregate pkg = filter (\<lambda>item. package_path item = pkg) aggregate"

text \<open>
  Modelled from the spec: "the package is considered documented if any contributing file
  shows it annotated" (the rule's \<^verbatim>\<open>aggregate_report\<close> step is missing).
\<close>

definition package_documented :: "contribution list \<Rightarrow> string list \<Rightarrow> bool" where
  "package_documented aggregate pkg = list_ex package_annotated (package_items aggregate pkg)"

text \<open>
  Modelled from the spec: the package paths of the state that no contributor shows
  annotated (the rule's \<^verbatim>\<open>aggregate_report\<close> step is missing).
\<close>

definition undocumented_packages :: "contribution list \<Rightarrow> string list list" where
  "undocumented_packages aggregate =
     filter (\<lambda>pkg. \<not> package_documented aggregate pkg) (remdups (map package_path aggregate))"

text \<open>
  Modelled from the spec: the file and location of each contributor of a package (the
  rule's \<^verbatim>\<open>aggregate_report\<close> step is missing).
\<close>

definition package_locations :: "contribution list \<Rightarrow> string list \<Rightarrow> location list" where
  "package_locations aggregate pkg =
     map (\<lambda>item. (source_file item, package_location item)) (package_items aggregate pkg)"

text \<open>
  Modelled from the spec: "a missing-metadata diagnostic is emitted per undocumented
  package" (the rule's \<^verbatim>\<open>aggregate_report\<close> step is missing).
\<close>

definition package_report :: "rule_config \<Rightarrow> contribution list \<Rightarrow> violation set" where
  "package_report cfg aggregate =
     (\<lambda>pkg. result_fail cfg (first_location (package_locations aggregate pkg))) `
       set (undocumented_packages aggregate)"

text \<open>
  Modelled from the spec: the contributions for one rule path, whichever file supplied
  them: the annotation state and the location of the rule head (the rule's
  \<^verbatim>\<open>aggregate_report\<close> step is missing).
\<close>

definition rule_items :: "contribution list \<Rightarrow> string \<Rightarrow> (bool \<times> location) list" where
  "rule_items aggregate path =
     concat (map (\<lambda>item.
        map (\<lambda>r. (rule_annotated r, (source_file item, rule_location r)))
          (filter (\<lambda>r. rule_path r = path) (rule_contributions item))) aggregate)"

text \<open>
  Modelled from the spec: the rule paths of the state (the rule's
  \<^verbatim>\<open>aggregate_report\<close> step is missing).
\<close>

definition rule_paths :: "contribution list \<Rightarrow> string list" where
  "rule_paths aggregate =
     remdups (concat (map (\<lambda>item. map rule_path (rule_contributions item)) aggregate))"

text \<open>
  Modelled from the spec: a rule is documented when a contribution for its path shows it
  annotated (the rule's \<^verbatim>\<open>aggregate_report\<close> step is missing). The spec judges each rule
  by its own contribution "regardless of which file supplied it"; the test
  \<^verbatim>\<open>test_success_one_missing_one_found_rule_metadata_report\<close> expects no report for a
  rule that one file shows unannotated and another annotated.
\<close>

definition rule_documented :: "contribution list \<Rightarrow> string \<Rightarrow> bool" where
  "rule_documented aggregate path = list_ex fst (rule_items aggregate path)"

text \<open>
  Modelled from the spec: the rule paths that no contribution shows annotated (the rule's
  \<^verbatim>\<open>aggregate_report\<close> step is missing).
\<close>

definition undocumented_rules :: "contribution list \<Rightarrow> string list" where
  "undocumented_rules aggregate =
     filter (\<lambda>path. \<not> rule_documented aggregate path) (rule_paths aggregate)"

text \<open>
  Modelled from the spec: a diagnostic "per undocumented rule (location = that rule's own
  contribution)" (the rule's \<^verbatim>\<open>aggregate_report\<close> step is missing).
\<close>

definition rule_report :: "rule_config \<Rightarrow> contribution list \<Rightarrow> violation set" where
  "rule_report cfg aggregate =
     (\<lambda>path. result_fail cfg (first_location (map snd (rule_items aggregate path)))) `
       set (undocumented_rules aggregate)"

text \<open>
  Modelled from the spec: the cross-file rule of the category missing-metadata, which
  \<^verbatim>\<open>recompute\<close> evaluates over the state (the rule's \<^verbatim>\<open>aggregate_report\<close> step is
  missing). The state is given as the contributions in the order an evaluation meets
  them; the report is a set.
\<close>

definition aggregate_report :: "rule_config \<Rightarrow> contribution list \<Rightarrow> violation set" where
  "aggregate_report cfg aggregate = package_report cfg aggregate \<union> rule_report cfg aggregate"

text \<open>
  Modelled from the spec: what a contribution says, apart from the order in which it
  lists its rules (the rule's \<^verbatim>\<open>aggregate\<close> step, whose output is an object keyed by rule
  path, is missing). Two enumerations of one AggregateState have the same such facts.
\<close>

definition contribution_facts ::
  "contribution \<Rightarrow> string \<times> string list \<times> bool \<times> locator \<times> rule_contribution set" where
  "contribution_facts item =
     (source_file item, package_path item, package_annotated item, package_location item,
      set (rule_contributions item))"

text \<open>
  Modelled from the spec: the AggregateState of a category, "the union, across all
  currently known FileIdentifiers, of their AggregateContributions" (the aggregation
  engine is missing). The contributions of a file are what the per-file analysis
  \<open>contribute\<close>, an external capability, yields for the structure the cache holds
  for it; the known files are read through \<^verbatim>\<open>GetAllModules\<close>.
\<close>

definition AggregateState ::
  "(string \<Rightarrow> 'm option \<Rightarrow> 'a set) \<Rightarrow> ('m, 'd, 'b) Cache \<Rightarrow> 'a set" where
  "AggregateState contribute c =
     {fact. \<exists>uri module. GetAllModules c uri = Some module \<and> fact \<in> contribute uri module}"

text \<open>
  Modelled from the spec: \<^verbatim>\<open>recompute(category)\<close>, which "unions all current
  contributions for that category and evaluates the category's cross-file rule (external
  capability) over the union" (the aggregation engine is missing).
\<close>

definition recompute ::
  "('a set \<Rightarrow> 'v set) \<Rightarrow> (string \<Rightarrow> 'm option \<Rightarrow> 'a set) \<Rightarrow> ('m, 'd, 'b) Cache \<Rightarrow> 'v set" where
  "recompute evaluate contribute c = evaluate (AggregateState contribute c)"

section \<open>The inputs of the tests of missing-metadata\<close>

text \<open>
  Modelled from the spec: the contributions of the modules the tests parse (the parser
  and the rule's \<^verbatim>\<open>aggregate\<close> step are missing, so each contribution is written out
  from the module's text), in the shape the test
  \<^verbatim>\<open>test_success_aggregate_format_as_expected\<close> asserts: every module is the file
  \<^verbatim>\<open>p.rego\<close> and declares the package \<^verbatim>\<open>foo.bar\<close>; the rows are those of the package
  keyword and of the rule heads in the module's text. The tests run the report at the
  level \<^verbatim>\<open>error\<close>; the address of the documentation, which the tests take from the
  configuration, is a fixed string here.
\<close>

definition error_config :: rule_config where
  "error_config =
     \<lparr> config_level = ''error'', config_docs_url = ''docs/custom/missing-metadata'' \<rparr>"

definition bare_package :: contribution where
  "bare_package =
     \<lparr> source_file = ''p.rego'', package_path = [''foo'', ''bar''],
       package_annotated = False, package_location = (1, 1, ''package''),
       rule_contributions = [] \<rparr>"

definition titled_package :: contribution where
  "titled_package =
     \<lparr> source_file = ''p.rego'', package_path = [''foo'', ''bar''],
       package_annotated = True, package_location = (3, 1, ''package''),
       rule_contributions = [] \<rparr>"

definition titled_package_titled_baz :: contribution where
  "titled_package_titled_baz =
     \<lparr> source_file = ''p.rego'', package_path = [''foo'', ''bar''],
       package_annotated = True, package_location = (3, 1, ''package''),
       rule_contributions =
         [\<lparr> rule_path = ''foo.bar.baz'', rule_annotated = True,
            rule_location = (7, 1, ''baz := true'') \<rparr>] \<rparr>"

definition bare_baz :: rule_contribution where
  "bare_baz =
     \<lparr> rule_path = ''foo.bar.baz'', rule_annotated = False,
       rule_location = (5, 1, ''baz := true'') \<rparr>"

definition titled_package_bare_baz :: contribution where
  "titled_package_bare_baz =
     \<lparr> source_file = ''p.rego'', package_path = [''foo'', ''bar''],
       package_annotated = True, package_location = (3, 1, ''package''),
       rule_contributions = [bare_baz] \<rparr>"

definition titled_package_bare_rule :: contribution where
  "titled_package_bare_rule =
     \<lparr> source_file = ''p.rego'', package_path = [''foo'', ''bar''],
       package_annotated = True, package_location = (3, 1, ''package''),
       rule_contributions =
         [\<lparr> rule_path = ''foo.bar.rule'', rule_annotated = False,
            rule_location = (5, 1, ''rule := true'') \<rparr>] \<rparr>"

definition bare_package_described_rule :: contribution where
  "bare_package_described_rule =
     \<lparr> source_file = ''p.rego'', package_path = [''foo'', ''bar''],
       package_annotated = False, package_location = (2, 1, ''package''),
       rule_contributions =
         [\<lparr> rule_path = ''foo.bar.rule'', rule_annotated = True,
            rule_location = (6, 1, ''rule := false'') \<rparr>] \<rparr>"

section \<open>Example caches\<close>

text \<open>
  Caches over diagnostics named by their message, with modules and builtin positions
  of the unit type. \<open>broken_cache\<close> holds a file that fails to parse next to stale
  diagnostics of an earlier pass; \<open>linted_cache\<close> holds the same file after a parse
  that succeeded (its parse errors set to the empty list).
\<close>

definition broken_cache :: "(unit, string, unit) Cache" where
  "broken_cache =
     SetParseErrors
       (SetAggregateDiagnostics
          (SetFileDiagnostics NewCache ''file:///p.rego'' [''prefer-snake-case''])
          ''file:///p.rego'' [''missing-metadata''])
       ''file:///p.rego'' [''rego_parse_error'']"

definition linted_cache :: "(unit, string, unit) Cache" where
  "linted_cache = SetParseErrors broken_cache ''file:///p.rego'' []"

definition two_broken_files :: "(unit, string, unit) Cache" where
  "two_broken_files =
     SetParseErrors
       (SetParseErrors NewCache ''file:///a.rego'' [''rego_parse_error''])
       ''file:///b.rego'' [''rego_parse_error'']"

definition open_file_cache :: "(unit, string, unit) Cache" where
  "open_file_cache =
     SetModule (SetFileContents NewCache ''file:///p.rego'' ''package p'')
       ''file:///p.rego'' (Some ())"

definition edited_file_cache :: "(unit, string, unit) Cache" where
  "edited_file_cache = SetFileContents NewCache ''file:///p.rego'' ''package q''"

definition disk :: "string \<Rightarrow> string + string" where
  "disk path = (if path = ''/w/p.rego'' then Inr ''package p'' else Inl ''no such file'')"

section \<open>Merged read of the diagnostics\<close>

lemma comma_ok_simps [simp]:
  "comma_ok zero None = (zero, False)"
  "comma_ok zero (Some v) = (v, True)"
  by (simp_all add: comma_ok_def)

lemmas getter_defs =
  GetFileContents_def GetModule_def GetFileDiagnostics_def GetAggregateDiagnostics_def
  GetParseErrors_def GetBuiltinPositions_def

lemmas setter_defs =
  SetFileContents_def SetModule_def SetFileDiagnostics_def SetAggregateDiagnostics_def
  SetParseErrors_def SetBuiltinPositions_def

lemma run_steps_simps [simp]:
  "run_steps [] s = s"
  "run_steps (step # steps) s = run_steps steps (step s)"
  by (simp_all add: run_steps_def)

lemma Delete_eq:
  "Delete c uri =
     c\<lparr> fileContents := (fileContents c)(uri := None),
        modules := (modules c)(uri := None),
        diagnosticsFile := (diagnosticsFile c)(uri := None),
        diagnosticsAggregate := (diagnosticsAggregate c)(uri := None),
        diagnosticsParseErrors := (diagnosticsParseErrors c)(uri := None),
        builtinPositionsFile := (builtinPositionsFile c)(uri := None) \<rparr>"
  by (simp add: Delete_def Delete_steps_def)

lemma GetAllDiagnosticsForURI_parse:
  assumes "diagnosticsParseErrors c uri = Some ds" and "ds \<noteq> []"
  shows "GetAllDiagnosticsForURI c uri = ds"
  using assms by (simp add: GetAllDiagnosticsForURI_def GetParseErrors_def)

lemma GetAllDiagnosticsForURI_no_parse:
  assumes "diagnosticsParseErrors c uri = None \<or> diagnosticsParseErrors c uri = Some []"
  shows "GetAllDiagnosticsForURI c uri =
           (case diagnosticsAggregate c uri of None \<Rightarrow> [] | Some agg \<Rightarrow> agg) @
           (case diagnosticsFile c uri of None \<Rightarrow> [] | Some loc \<Rightarrow> loc)"
  using assms
  by (auto simp: GetAllDiagnosticsForURI_def getter_defs split: option.splits)

text \<open>
  C1. When the parse errors of a URI are present and not empty, the merged read returns
  exactly that list, whatever the file and aggregate maps hold. Otherwise (no entry, or
  the empty list) it returns the aggregate list, when present, followed by the file list,
  when present, each as it was stored.
\<close>

theorem GetAllDiagnosticsForURI_precedence:
  "(\<forall>ds. diagnosticsParseErrors c uri = Some ds \<and> ds \<noteq> [] \<longrightarrow>
          GetAllDiagnosticsForURI c uri = ds) \<and>
   (diagnosticsParseErrors c uri = None \<or> diagnosticsParseErrors c uri = Some [] \<longrightarrow>
      GetAllDiagnosticsForURI c uri =
        (case diagnosticsAggregate c uri of None \<Rightarrow> [] | Some agg \<Rightarrow> agg) @
        (case diagnosticsFile c uri of None \<Rightarrow> [] | Some loc \<Rightarrow> loc))"
  using GetAllDiagnosticsForURI_parse GetAllDiagnosticsForURI_no_parse by blast

theorem GetAllDiagnosticsForURI_precedence_witness:
  "diagnosticsParseErrors broken_cache ''file:///p.rego'' = Some [''rego_parse_error''] \<and>
   [''rego_parse_error''] \<noteq> ([] :: string list) \<and>
   GetAllDiagnosticsForURI broken_cache ''file:///p.rego'' = [''rego_parse_error''] \<and>
   diagnosticsParseErrors linted_cache ''file:///p.rego'' = Some [] \<and>
   GetAllDiagnosticsForURI linted_cache ''file:///p.rego'' =
     [''missing-metadata'', ''prefer-snake-case'']"
  using GetAllDiagnosticsForURI_precedence [of broken_cache "''file:///p.rego''"]
    GetAllDiagnosticsForURI_precedence [of linted_cache "''file:///p.rego''"]
  by (simp add: broken_cache_def linted_cache_def setter_defs NewCache_def)

section \<open>The found flag of the getters\<close>

text \<open>
  C9. Every getter returns, next to the value, a flag that is true exactly when the map
  has an entry for the URI. After a URI's diagnostics are set to the empty list, the
  getter of that map returns the empty list with the flag true; on a cache nothing was
  written to, every getter returns the zero value with the flag false.
\<close>

theorem getters_found_flag:
  "snd (GetFileContents c uri) = (fileContents c uri \<noteq> None) \<and>
   snd (GetModule c uri) = (modules c uri \<noteq> None) \<and>
   snd (GetFileDiagnostics c uri) = (diagnosticsFile c uri \<noteq> None) \<and>
   snd (GetAggregateDiagnostics c uri) = (diagnosticsAggregate c uri \<noteq> None) \<and>
   snd (GetParseErrors c uri) = (diagnosticsParseErrors c uri \<noteq> None) \<and>
   snd (GetBuiltinPositions c uri) = (builtinPositionsFile c uri \<noteq> None) \<and>
   GetFileDiagnostics (SetFileDiagnostics c uri []) uri = ([], True) \<and>
   GetAggregateDiagnostics (SetAggregateDiagnostics c uri []) uri = ([], True) \<and>
   GetParseErrors (SetParseErrors c uri []) uri = ([], True) \<and>
   GetFileContents (SetFileContents c uri content) uri = (content, True) \<and>
   GetModule (SetModule c uri module) uri = (module, True) \<and>
   GetBuiltinPositions (SetBuiltinPositions c uri positions) uri = (positions, True) \<and>
   GetFileDiagnostics (NewCache :: ('m, 'd, 'b) Cache) uri = ([], False) \<and>
   GetAggregateDiagnostics (NewCache :: ('m, 'd, 'b) Cache) uri = ([], False) \<and>
   GetParseErrors (NewCache :: ('m, 'd, 'b) Cache) uri = ([], False) \<and>
   GetFileContents (NewCache :: ('m, 'd, 'b) Cache) uri = ([], False) \<and>
   GetModule (NewCache :: ('m, 'd, 'b) Cache) uri = (None, False) \<and>
   GetBuiltinPositions (NewCache :: ('m, 'd, 'b) Cache) uri = (Map.empty, False)"
  by (simp add: getter_defs setter_defs NewCache_def comma_ok_def split: option.split)

text \<open>
  C10. For a URI with no entry in any of the three diagnostics maps the merged read
  returns the empty list, and it returns the same empty list once the three entries are
  set to the empty list: the result carries no flag that tells a file never analysed from
  a file analysed with nothing to report.
\<close>

theorem GetAllDiagnosticsForURI_never_analysed:
  assumes "diagnosticsParseErrors c uri = None"
    and "diagnosticsAggregate c uri = None"
    and "diagnosticsFile c uri = None"
  shows "GetAllDiagnosticsForURI c uri = [] \<and>
         GetAllDiagnosticsForURI
           (SetParseErrors (SetAggregateDiagnostics (SetFileDiagnostics c uri []) uri []) uri [])
           uri = GetAllDiagnosticsForURI c uri"
  using assms by (simp add: GetAllDiagnosticsForURI_def getter_defs setter_defs)

theorem GetAllDiagnosticsForURI_never_analysed_witness:
  "diagnosticsParseErrors broken_cache ''file:///q.rego'' = None \<and>
   diagnosticsAggregate broken_cache ''file:///q.rego'' = None \<and>
   diagnosticsFile broken_cache ''file:///q.rego'' = None \<and>
   GetAllDiagnosticsForURI broken_cache ''file:///q.rego'' = [] \<and>
   GetAllDiagnosticsForURI
     (SetParseErrors
        (SetAggregateDiagnostics (SetFileDiagnostics broken_cache ''file:///q.rego'' [])
           ''file:///q.rego'' [])
        ''file:///q.rego'' [])
     ''file:///q.rego'' = []"
proof -
  have h: "diagnosticsParseErrors broken_cache ''file:///q.rego'' = None"
    "diagnosticsAggregate broken_cache ''file:///q.rego'' = None"
    "diagnosticsFile broken_cache ''file:///q.rego'' = None"
    by (simp_all add: broken_cache_def setter_defs NewCache_def)
  from GetAllDiagnosticsForURI_never_analysed [OF h] h show ?thesis by simp
qed

section \<open>Clearing a diagnostics map\<close>

text \<open>
  C7, as the code has it. The file and the aggregate diagnostics each have a get, a set
  and a clear; after the clear the get of that map returns not-found for every URI, and
  the other maps are as they were. The parse errors have a get and a set, and neither
  clear touches them.
\<close>

theorem clear_resets_file_and_aggregate:
  "GetFileDiagnostics (ClearFileDiagnostics c) uri = ([], False) \<and>
   GetAggregateDiagnostics (ClearAggregateDiagnostics c) uri = ([], False) \<and>
   ClearFileDiagnostics c = c\<lparr>diagnosticsFile := Map.empty\<rparr> \<and>
   ClearAggregateDiagnostics c = c\<lparr>diagnosticsAggregate := Map.empty\<rparr> \<and>
   GetFileDiagnostics (SetFileDiagnostics c uri diags) uri' =
     (if uri' = uri then (diags, True) else GetFileDiagnostics c uri') \<and>
   GetAggregateDiagnostics (SetAggregateDiagnostics c uri diags) uri' =
     (if uri' = uri then (diags, True) else GetAggregateDiagnostics c uri') \<and>
   GetParseErrors (SetParseErrors c uri diags) uri' =
     (if uri' = uri then (diags, True) else GetParseErrors c uri') \<and>
   GetParseErrors (ClearFileDiagnostics c) uri = GetParseErrors c uri \<and>
   GetParseErrors (ClearAggregateDiagnostics c) uri = GetParseErrors c uri"
  by (simp add: getter_defs setter_defs ClearFileDiagnostics_def ClearAggregateDiagnostics_def)

text \<open>
  C7 as stated fails for the parse errors: cache.go has no function that clears that
  map. With parse errors stored for two files, no single call of a writing function
  leaves both files without an entry.
\<close>

theorem no_call_clears_parse_errors:
  "\<not> (\<exists>call :: (unit, string, unit, string) cache_call.
        GetParseErrors (run_call call two_broken_files) ''file:///a.rego'' = ([], False) \<and>
        GetParseErrors (run_call call two_broken_files) ''file:///b.rego'' = ([], False))"
proof
  assume "\<exists>call :: (unit, string, unit, string) cache_call.
        GetParseErrors (run_call call two_broken_files) ''file:///a.rego'' = ([], False) \<and>
        GetParseErrors (run_call call two_broken_files) ''file:///b.rego'' = ([], False)"
  then obtain call :: "(unit, string, unit, string) cache_call" where
    a: "GetParseErrors (run_call call two_broken_files) ''file:///a.rego'' = ([], False)" and
    b: "GetParseErrors (run_call call two_broken_files) ''file:///b.rego'' = ([], False)"
    by blast
  show False
  proof (cases call)
    case (CallDelete uri)
    with a b show False
      by (auto simp: two_broken_files_def getter_defs setter_defs NewCache_def Delete_eq
            split: if_splits)
  next
    case (CallUpdateCacheForURIFromDisk readFile uri path)
    with a show False
      by (simp add: two_broken_files_def getter_defs setter_defs NewCache_def
            UpdateCacheForURIFromDisk_def Let_def split: sum.splits prod.splits if_splits)
  qed (use a b in \<open>simp_all add: two_broken_files_def getter_defs setter_defs NewCache_def
            ClearFileDiagnostics_def ClearAggregateDiagnostics_def split: if_splits\<close>)
qed


section \<open>Reloading a file from disk\<close>

text \<open>
  C4, as the code has it. When the read succeeds the call returns the bytes read, and the
  cache is left exactly as it was when they equal the cached content, else the content
  entry is overwritten with them. When the read fails the call returns the wrapped error
  and the cache as it was. No other store is ever written.
\<close>

theorem UpdateCacheForURIFromDisk_returns_bytes_read:
  "(\<forall>content. readFile path = Inr content \<longrightarrow>
      fst (UpdateCacheForURIFromDisk readFile c uri path) = Inr content \<and>
      snd (UpdateCacheForURIFromDisk readFile c uri path) =
        (if fileContents c uri = Some content then c else SetFileContents c uri content)) \<and>
   (\<forall>err. readFile path = Inl err \<longrightarrow>
      UpdateCacheForURIFromDisk readFile c uri path = (Inl (FailedToReadFile err), c)) \<and>
   modules (snd (UpdateCacheForURIFromDisk readFile c uri path)) = modules c \<and>
   diagnosticsFile (snd (UpdateCacheForURIFromDisk readFile c uri path)) = diagnosticsFile c \<and>
   diagnosticsAggregate (snd (UpdateCacheForURIFromDisk readFile c uri path)) =
     diagnosticsAggregate c \<and>
   diagnosticsParseErrors (snd (UpdateCacheForURIFromDisk readFile c uri path)) =
     diagnosticsParseErrors c \<and>
   builtinPositionsFile (snd (UpdateCacheForURIFromDisk readFile c uri path)) =
     builtinPositionsFile c"
  by (auto simp: UpdateCacheForURIFromDisk_def GetFileContents_def SetFileContents_def
        comma_ok_def split: sum.splits option.splits)

theorem UpdateCacheForURIFromDisk_returns_bytes_read_witness:
  "disk ''/w/p.rego'' = Inr ''package p'' \<and>
   UpdateCacheForURIFromDisk disk open_file_cache ''file:///p.rego'' ''/w/p.rego'' =
     (Inr ''package p'', open_file_cache) \<and>
   UpdateCacheForURIFromDisk disk edited_file_cache ''file:///p.rego'' ''/w/p.rego'' =
     (Inr ''package p'', SetFileContents edited_file_cache ''file:///p.rego'' ''package p'') \<and>
   disk ''/w/q.rego'' = Inl ''no such file'' \<and>
   UpdateCacheForURIFromDisk disk open_file_cache ''file:///q.rego'' ''/w/q.rego'' =
     (Inl (FailedToReadFile ''no such file''), open_file_cache)"
proof -
  have p: "disk ''/w/p.rego'' = Inr ''package p''" and q: "disk ''/w/q.rego'' = Inl ''no such file''"
    by (simp_all add: disk_def)
  have same: "fileContents open_file_cache ''file:///p.rego'' = Some ''package p''"
    by (simp add: open_file_cache_def setter_defs)
  have other: "fileContents edited_file_cache ''file:///p.rego'' \<noteq> Some ''package p''"
    by (simp add: edited_file_cache_def setter_defs)
  from UpdateCacheForURIFromDisk_returns_bytes_read
         [of disk "''/w/p.rego''" open_file_cache "''file:///p.rego''"]
       UpdateCacheForURIFromDisk_returns_bytes_read
         [of disk "''/w/p.rego''" edited_file_cache "''file:///p.rego''"]
       UpdateCacheForURIFromDisk_returns_bytes_read
         [of disk "''/w/q.rego''" open_file_cache "''file:///q.rego''"]
       p q same other
  show ?thesis by (simp add: prod_eq_iff)
qed

text \<open>
  C4 as stated fails in its report to the caller: the return value is the same for a call
  that left the cache unchanged and for a call that overwrote the content entry.
\<close>

theorem UpdateCacheForURIFromDisk_same_return_changed_or_not:
  "snd (UpdateCacheForURIFromDisk disk open_file_cache ''file:///p.rego'' ''/w/p.rego'') =
     open_file_cache \<and>
   snd (UpdateCacheForURIFromDisk disk edited_file_cache ''file:///p.rego'' ''/w/p.rego'') \<noteq>
     edited_file_cache \<and>
   fst (UpdateCacheForURIFromDisk disk open_file_cache ''file:///p.rego'' ''/w/p.rego'') =
     fst (UpdateCacheForURIFromDisk disk edited_file_cache ''file:///p.rego'' ''/w/p.rego'')"
proof -
  have "fileContents
          (snd (UpdateCacheForURIFromDisk disk edited_file_cache ''file:///p.rego'' ''/w/p.rego''))
          ''file:///p.rego'' \<noteq> fileContents edited_file_cache ''file:///p.rego''"
    by (simp add: UpdateCacheForURIFromDisk_def disk_def edited_file_cache_def
          GetFileContents_def SetFileContents_def NewCache_def Let_def)
  then have "snd (UpdateCacheForURIFromDisk disk edited_file_cache ''file:///p.rego'' ''/w/p.rego'')
               \<noteq> edited_file_cache"
    by auto
  moreover have
    "snd (UpdateCacheForURIFromDisk disk open_file_cache ''file:///p.rego'' ''/w/p.rego'') =
       open_file_cache"
    "fst (UpdateCacheForURIFromDisk disk open_file_cache ''file:///p.rego'' ''/w/p.rego'') =
       fst (UpdateCacheForURIFromDisk disk edited_file_cache ''file:///p.rego'' ''/w/p.rego'')"
    by (simp_all add: UpdateCacheForURIFromDisk_def disk_def edited_file_cache_def
          open_file_cache_def GetFileContents_def SetFileContents_def SetModule_def NewCache_def
          Let_def)
  ultimately show ?thesis by simp
qed

section \<open>Delete, one lock at a time\<close>

lemma Delete_after_cases:
  fixes k :: nat
  obtains "k = 0" | "k = 1" | "k = 2" | "k = 3" | "k = 4" | "k = 5" | "6 \<le> k"
  by linarith

lemma take_Delete_steps_all: "6 \<le> k \<Longrightarrow> take k (Delete_steps uri) = Delete_steps uri"
  by (simp add: Delete_steps_def)

text \<open>
  C8 as stated fails: after the first critical section of \<^verbatim>\<open>Delete\<close> and before the
  second, a reader finds the content of the file gone and its module still cached.
\<close>

theorem Delete_half_done_is_observable:
  "GetFileContents (Delete_after 1 open_file_cache ''file:///p.rego'') ''file:///p.rego'' =
     ([], False) \<and>
   GetModule (Delete_after 1 open_file_cache ''file:///p.rego'') ''file:///p.rego'' =
     (Some (), True) \<and>
   GetModule (Delete open_file_cache ''file:///p.rego'') ''file:///p.rego'' = (None, False)"
  by (simp add: Delete_after_def Delete_steps_def Delete_eq open_file_cache_def getter_defs
        setter_defs NewCache_def)

text \<open>
  C8, as the code has it. When \<open>k\<close> of the six critical sections have run, the first
  \<open>k\<close> stores (in the order contents, modules, file diagnostics, aggregate diagnostics,
  parse errors, builtin positions) return not-found for the URI, the others return what
  they held, and the entries of every other URI are untouched; the sixth completes
  \<^verbatim>\<open>Delete\<close>.
\<close>

theorem Delete_after_prefix:
  "GetFileContents (Delete_after k c uri) u =
     (if 0 < k \<and> u = uri then ([], False) else GetFileContents c u) \<and>
   GetModule (Delete_after k c uri) u =
     (if 1 < k \<and> u = uri then (None, False) else GetModule c u) \<and>
   GetFileDiagnostics (Delete_after k c uri) u =
     (if 2 < k \<and> u = uri then ([], False) else GetFileDiagnostics c u) \<and>
   GetAggregateDiagnostics (Delete_after k c uri) u =
     (if 3 < k \<and> u = uri then ([], False) else GetAggregateDiagnostics c u) \<and>
   GetParseErrors (Delete_after k c uri) u =
     (if 4 < k \<and> u = uri then ([], False) else GetParseErrors c u) \<and>
   GetBuiltinPositions (Delete_after k c uri) u =
     (if 5 < k \<and> u = uri then (Map.empty, False) else GetBuiltinPositions c u) \<and>
   Delete_after 6 c uri = Delete c uri"
proof (cases k rule: Delete_after_cases)
  case 7
  then show ?thesis
    by (simp add: Delete_after_def take_Delete_steps_all)
       (simp add: Delete_steps_def Delete_def getter_defs)
qed (simp_all add: Delete_after_def Delete_def Delete_steps_def getter_defs numeral_2_eq_2
       numeral_3_eq_3 eval_nat_numeral)

section \<open>The missing-metadata report\<close>

text \<open>
  The pieces of the report, as sets: each depends on the contributions only through the
  set of them.
\<close>

lemma set_package_items:
  "set (package_items xs p) = {i \<in> set xs. package_path i = p}"
  by (simp add: package_items_def)

lemma package_documented_iff:
  "package_documented xs p \<longleftrightarrow> (\<exists>i\<in>set xs. package_path i = p \<and> package_annotated i)"
  by (auto simp: package_documented_def list_ex_iff set_package_items)

lemma set_undocumented_packages:
  "set (undocumented_packages xs) = {p \<in> package_path ` set xs. \<not> package_documented xs p}"
  by (auto simp: undocumented_packages_def)

lemma set_package_locations:
  "set (package_locations xs p) =
     (\<Union>i\<in>set xs. if package_path i = p then {(source_file i, package_location i)} else {})"
  by (auto simp: package_locations_def set_package_items)

lemma set_rule_items:
  "set (rule_items xs path) =
     (\<Union>i\<in>set xs. (\<lambda>r. (rule_annotated r, (source_file i, rule_location r))) `
        {r \<in> set (rule_contributions i). rule_path r = path})"
  by (auto simp: rule_items_def)

lemma set_rule_paths:
  "set (rule_paths xs) = (\<Union>i\<in>set xs. rule_path ` set (rule_contributions i))"
  by (auto simp: rule_paths_def)

lemma rule_documented_iff:
  "rule_documented xs path \<longleftrightarrow> (\<exists>t\<in>set (rule_items xs path). fst t)"
  by (simp add: rule_documented_def list_ex_iff)

lemma set_undocumented_rules:
  "set (undocumented_rules xs) = {path \<in> set (rule_paths xs). \<not> rule_documented xs path}"
  by (auto simp: undocumented_rules_def)

lemma same_facts_image:
  assumes "contribution_facts ` set xs = contribution_facts ` set ys"
  shows "(\<lambda>i. h (contribution_facts i)) ` set xs = (\<lambda>i. h (contribution_facts i)) ` set ys"
proof -
  have "(\<lambda>i. h (contribution_facts i)) ` A = h ` (contribution_facts ` A)" for A
    by (simp add: image_image)
  with assms show ?thesis by simp
qed

lemma same_facts_package_paths:
  assumes "contribution_facts ` set xs = contribution_facts ` set ys"
  shows "package_path ` set xs = package_path ` set ys"
  using same_facts_image [OF assms, of "\<lambda>t. fst (snd t)"]
  by (simp add: contribution_facts_def)

lemma same_facts_package_documented:
  assumes "contribution_facts ` set xs = contribution_facts ` set ys"
  shows "package_documented xs p = package_documented ys p"
proof -
  have "(\<lambda>i. package_path i = p \<and> package_annotated i) ` set xs =
        (\<lambda>i. package_path i = p \<and> package_annotated i) ` set ys"
    using same_facts_image [OF assms, of "\<lambda>t. fst (snd t) = p \<and> fst (snd (snd t))"]
    by (simp add: contribution_facts_def)
  then have "True \<in> (\<lambda>i. package_path i = p \<and> package_annotated i) ` set xs \<longleftrightarrow>
             True \<in> (\<lambda>i. package_path i = p \<and> package_annotated i) ` set ys"
    by simp
  then show ?thesis
    unfolding package_documented_iff by (simp add: image_iff)
qed

lemma same_facts_package_locations:
  assumes "contribution_facts ` set xs = contribution_facts ` set ys"
  shows "set (package_locations xs p) = set (package_locations ys p)"
  using same_facts_image [OF assms,
      of "\<lambda>t. if fst (snd t) = p then {(fst t, fst (snd (snd (snd t))))} else {}"]
  by (simp add: set_package_locations contribution_facts_def)

lemma same_facts_rule_items:
  assumes "contribution_facts ` set xs = contribution_facts ` set ys"
  shows "set (rule_items xs path) = set (rule_items ys path)"
  using same_facts_image [OF assms,
      of "\<lambda>t. (\<lambda>r. (rule_annotated r, (fst t, rule_location r))) `
               {r \<in> snd (snd (snd (snd t))). rule_path r = path}"]
  by (simp add: set_rule_items contribution_facts_def)

lemma same_facts_rule_paths:
  assumes "contribution_facts ` set xs = contribution_facts ` set ys"
  shows "set (rule_paths xs) = set (rule_paths ys)"
  using same_facts_image [OF assms, of "\<lambda>t. rule_path ` snd (snd (snd (snd t)))"]
  by (simp add: set_rule_paths contribution_facts_def)

lemma same_facts_package_report:
  assumes "contribution_facts ` set xs = contribution_facts ` set ys"
  shows "package_report cfg xs = package_report cfg ys"
proof -
  have "set (undocumented_packages xs) = set (undocumented_packages ys)"
    by (simp add: set_undocumented_packages same_facts_package_paths [OF assms]
          same_facts_package_documented [OF assms])
  moreover have "first_location (package_locations xs p) = first_location (package_locations ys p)"
    for p
    by (simp add: first_location_def same_facts_package_locations [OF assms])
  ultimately show ?thesis
    by (simp add: package_report_def)
qed

lemma same_facts_rule_report:
  assumes "contribution_facts ` set xs = contribution_facts ` set ys"
  shows "rule_report cfg xs = rule_report cfg ys"
proof -
  have items: "set (rule_items xs path) = set (rule_items ys path)" for path
    by (rule same_facts_rule_items [OF assms])
  have "set (undocumented_rules xs) = set (undocumented_rules ys)"
    by (simp add: set_undocumented_rules same_facts_rule_paths [OF assms]
          rule_documented_iff items)
  moreover have "first_location (map snd (rule_items xs path)) =
                 first_location (map snd (rule_items ys path))" for path
    by (simp add: first_location_def items)
  ultimately show ?thesis
    by (simp add: rule_report_def)
qed

text \<open>
  C5. Two evaluations over one AggregateState give the same set of diagnostics: when two
  enumerations hold the same contributions (in any order, with any repetition, and each
  contribution listing its rules in any order), their reports are equal.
\<close>

theorem aggregate_report_order_independent:
  assumes "contribution_facts ` set xs = contribution_facts ` set ys"
  shows "aggregate_report cfg xs = aggregate_report cfg ys"
  by (simp add: aggregate_report_def same_facts_package_report [OF assms]
        same_facts_rule_report [OF assms])

subsection \<open>The tests of the rule\<close>

text \<open>
  The report of the model on the inputs of the tests of \<^verbatim>\<open>missing-metadata_test\<close>, each
  equal to what the test expects.
\<close>

lemmas report_defs =
  aggregate_report_def package_report_def rule_report_def undocumented_packages_def
  undocumented_rules_def rule_paths_def rule_items_def rule_documented_def
  package_documented_def package_items_def package_locations_def first_location_def

lemma test_success_not_missing_package_metadata_report:
  "aggregate_report error_config [titled_package] = {}"
  by (simp add: report_defs titled_package_def)

lemma test_fail_missing_package_metadata_report:
  "aggregate_report error_config [bare_package] =
     {\<lparr> category = ''custom'', title = ''missing-metadata'',
        description = ''Package or rule missing metadata'', level = ''error'',
        location = (''p.rego'', 1, 1, ''package''),
        related_resources = [(''documentation'', ''docs/custom/missing-metadata'')] \<rparr>}"
  by (simp add: report_defs bare_package_def result_fail_def error_config_def)

lemma test_success_one_missing_one_found_package_metadata_report:
  "aggregate_report error_config [bare_package, titled_package] = {}"
  by (simp add: report_defs bare_package_def titled_package_def)

lemma test_success_not_missing_rule_metadata_report:
  "aggregate_report error_config [titled_package_titled_baz] = {}"
  by (simp add: report_defs titled_package_titled_baz_def)

lemma test_fail_missing_rule_metadata_report:
  "aggregate_report error_config [titled_package_bare_baz] =
     {\<lparr> category = ''custom'', title = ''missing-metadata'',
        description = ''Package or rule missing metadata'', level = ''error'',
        location = (''p.rego'', 5, 1, ''baz := true''),
        related_resources = [(''documentation'', ''docs/custom/missing-metadata'')] \<rparr>}"
  by (simp add: report_defs titled_package_bare_baz_def bare_baz_def result_fail_def
        error_config_def)

lemma test_success_one_missing_one_found_rule_metadata_report:
  "aggregate_report error_config [titled_package_bare_rule, bare_package_described_rule] = {}"
  by (simp add: report_defs titled_package_bare_rule_def bare_package_described_rule_def)

theorem aggregate_report_order_independent_witness:
  "contribution_facts ` set [bare_package, titled_package_bare_baz] =
     contribution_facts ` set [titled_package_bare_baz, bare_package, titled_package_bare_baz] \<and>
   aggregate_report error_config [bare_package, titled_package_bare_baz] =
     aggregate_report error_config [titled_package_bare_baz, bare_package, titled_package_bare_baz]"
proof -
  have h: "contribution_facts ` set [bare_package, titled_package_bare_baz] =
     contribution_facts ` set [titled_package_bare_baz, bare_package, titled_package_bare_baz]"
    by auto
  from aggregate_report_order_independent [OF h] h show ?thesis by simp
qed

subsection \<open>Packages and rules\<close>

lemma package_items_other:
  "q \<noteq> p \<Longrightarrow>
   package_items (filter (\<lambda>j. package_path j \<noteq> p) xs) q = package_items xs q"
  by (auto simp: package_items_def intro: filter_cong)

text \<open>
  C3. When one contributing file shows a package annotated, the package is documented
  whatever the other contributors show: it is not among the undocumented packages, and
  the package diagnostics are those of the other packages alone.
\<close>

theorem annotated_contributor_documents_package:
  assumes "item \<in> set aggregate" and "package_annotated item"
  shows "package_documented aggregate (package_path item) \<and>
         package_path item \<notin> set (undocumented_packages aggregate) \<and>
         package_report cfg aggregate =
           package_report cfg (filter (\<lambda>j. package_path j \<noteq> package_path item) aggregate)"
proof -
  let ?p = "package_path item"
  let ?rest = "filter (\<lambda>j. package_path j \<noteq> ?p) aggregate"
  have doc: "package_documented aggregate ?p"
    using assms by (auto simp: package_documented_iff)
  have other: "package_documented ?rest q = package_documented aggregate q"
      "package_locations ?rest q = package_locations aggregate q" if "q \<noteq> ?p" for q
    using that by (simp_all add: package_documented_def package_locations_def package_items_other)
  have "set (undocumented_packages ?rest) = set (undocumented_packages aggregate)"
  proof (rule set_eqI)
    fix q
    show "q \<in> set (undocumented_packages ?rest) \<longleftrightarrow>
          q \<in> set (undocumented_packages aggregate)"
    proof (cases "q = ?p")
      case True
      with doc show ?thesis by (auto simp: set_undocumented_packages)
    next
      case False
      then have "q \<in> package_path ` set ?rest \<longleftrightarrow> q \<in> package_path ` set aggregate"
        by auto
      with other(1) [OF False] show ?thesis by (simp add: set_undocumented_packages)
    qed
  qed
  moreover have "\<forall>q \<in> set (undocumented_packages aggregate). q \<noteq> ?p"
    using doc by (auto simp: set_undocumented_packages)
  ultimately have "package_report cfg ?rest = package_report cfg aggregate"
    unfolding package_report_def by (auto simp: other(2) intro!: image_cong)
  with doc show ?thesis
    by (simp add: set_undocumented_packages)
qed

theorem annotated_contributor_documents_package_witness:
  "titled_package \<in> set [bare_package, titled_package] \<and>
   package_annotated titled_package \<and>
   package_documented [bare_package, titled_package] [''foo'', ''bar''] \<and>
   [''foo'', ''bar''] \<notin> set (undocumented_packages [bare_package, titled_package]) \<and>
   package_report error_config [bare_package, titled_package] = {}"
proof -
  have h: "titled_package \<in> set [bare_package, titled_package]"
    "package_annotated titled_package"
    by (simp_all add: titled_package_def)
  from annotated_contributor_documents_package [OF h, of error_config] h show ?thesis
    by (simp add: titled_package_def bare_package_def package_report_def
          undocumented_packages_def)
qed

lemma first_location_single: "set locs = {loc} \<Longrightarrow> first_location locs = loc"
  by (simp add: first_location_def)

text \<open>
  C6. A file whose package is annotated and in which one rule carries no metadata (every
  other rule fact being annotated, under another path) yields exactly one diagnostic, at
  the head of that rule, and none for the package; and the diagnostics of the rules do
  not depend on the annotation state of the packages.
\<close>

theorem unannotated_rule_in_annotated_package:
  assumes pkg: "package_annotated item"
    and baz: "baz \<in> set (rule_contributions item)"
    and bare: "\<not> rule_annotated baz"
    and others: "\<forall>r\<in>set (rule_contributions item).
                   r \<noteq> baz \<longrightarrow> rule_annotated r \<and> rule_path r \<noteq> rule_path baz"
  shows "aggregate_report cfg [item] = {result_fail cfg (source_file item, rule_location baz)} \<and>
         package_report cfg [item] = {} \<and>
         rule_report cfg (map (package_annotated_update flag) aggregate) = rule_report cfg aggregate"
proof -
  have no_pkg: "package_report cfg [item] = {}"
    using pkg
    by (simp add: package_report_def undocumented_packages_def package_documented_def
          package_items_def)
  have same_path: "r = baz" if "r \<in> set (rule_contributions item)" "rule_path r = rule_path baz" for r
    using that others by auto
  have items: "set (rule_items [item] (rule_path baz)) =
                 {(False, (source_file item, rule_location baz))}"
    using baz bare same_path by (auto simp: set_rule_items)
  have undoc: "set (undocumented_rules [item]) = {rule_path baz}"
  proof (rule set_eqI)
    fix path
    show "path \<in> set (undocumented_rules [item]) \<longleftrightarrow> path \<in> {rule_path baz}"
    proof (cases "path = rule_path baz")
      case True
      with baz items show ?thesis
        by (auto simp: set_undocumented_rules set_rule_paths rule_documented_iff)
    next
      case False
      have "rule_documented [item] path" if "path \<in> set (rule_paths [item])"
      proof -
        from that obtain r where r: "r \<in> set (rule_contributions item)" "rule_path r = path"
          by (auto simp: set_rule_paths)
        with False others have "rule_annotated r" by auto
        with r show ?thesis
          by (force simp: rule_documented_iff set_rule_items)
      qed
      with False show ?thesis
        by (auto simp: set_undocumented_rules)
    qed
  qed
  have "set (map snd (rule_items [item] (rule_path baz))) =
          {(source_file item, rule_location baz)}"
    using items by simp
  then have "first_location (map snd (rule_items [item] (rule_path baz))) =
               (source_file item, rule_location baz)"
    by (rule first_location_single)
  with undoc have "rule_report cfg [item] = {result_fail cfg (source_file item, rule_location baz)}"
    by (simp add: rule_report_def)
  moreover have "rule_report cfg (map (package_annotated_update flag) aggregate) =
                   rule_report cfg aggregate"
  proof -
    have "rule_items (map (package_annotated_update flag) aggregate) path =
            rule_items aggregate path" for path
      by (simp add: rule_items_def comp_def)
    moreover have "rule_paths (map (package_annotated_update flag) aggregate) =
                     rule_paths aggregate"
      by (simp add: rule_paths_def comp_def)
    ultimately show ?thesis
      by (simp add: rule_report_def undocumented_rules_def rule_documented_def)
  qed
  ultimately show ?thesis
    using no_pkg by (simp add: aggregate_report_def)
qed

theorem unannotated_rule_in_annotated_package_witness:
  "package_annotated titled_package_bare_baz \<and>
   bare_baz \<in> set (rule_contributions titled_package_bare_baz) \<and>
   \<not> rule_annotated bare_baz \<and>
   aggregate_report error_config [titled_package_bare_baz] =
     {result_fail error_config (''p.rego'', 5, 1, ''baz := true'')} \<and>
   package_report error_config [titled_package_bare_baz] = {}"
proof -
  have h: "package_annotated titled_package_bare_baz"
    "bare_baz \<in> set (rule_contributions titled_package_bare_baz)"
    "\<not> rule_annotated bare_baz"
    "\<forall>r\<in>set (rule_contributions titled_package_bare_baz).
        r \<noteq> bare_baz \<longrightarrow> rule_annotated r \<and> rule_path r \<noteq> rule_path bare_baz"
    by (simp_all add: titled_package_bare_baz_def bare_baz_def)
  from unannotated_rule_in_annotated_package [OF h, of error_config] h(1-3) show ?thesis
    by (simp add: titled_package_bare_baz_def bare_baz_def)
qed

section \<open>Invalidation\<close>

text \<open>
  C2. After \<^verbatim>\<open>Delete\<close> every getter of every store returns not-found for the URI, the
  merged read returns nothing for it, and the maps handed out whole have no entry for it.
  The AggregateState read from the cache afterwards consists of the contributions of the
  other files only, so a recomputation gives what it would give had the file never been
  cached.
\<close>

theorem Delete_invalidation_complete:
  "GetFileContents (Delete c uri) uri = ([], False) \<and>
   GetModule (Delete c uri) uri = (None, False) \<and>
   GetFileDiagnostics (Delete c uri) uri = ([], False) \<and>
   GetAggregateDiagnostics (Delete c uri) uri = ([], False) \<and>
   GetParseErrors (Delete c uri) uri = ([], False) \<and>
   GetBuiltinPositions (Delete c uri) uri = (Map.empty, False) \<and>
   GetAllDiagnosticsForURI (Delete c uri) uri = [] \<and>
   GetAllFiles (Delete c uri) uri = None \<and>
   GetAllModules (Delete c uri) uri = None \<and>
   GetAllBuiltInPositions (Delete c uri) uri = None \<and>
   AggregateState contribute (Delete c uri) =
     {fact. \<exists>u module. u \<noteq> uri \<and> GetAllModules c u = Some module \<and>
                        fact \<in> contribute u module} \<and>
   recompute evaluate contribute (Delete (SetModule c uri module) uri) =
     recompute evaluate contribute (Delete c uri)"
proof -
  have state: "AggregateState contribute (Delete c' uri) =
     {fact. \<exists>u module. u \<noteq> uri \<and> GetAllModules c' u = Some module \<and>
                        fact \<in> contribute u module}" for c' :: "('a, 'b, 'c) Cache"
    by (auto simp: AggregateState_def GetAllModules_def Delete_eq split: if_splits)
  have "AggregateState contribute (Delete (SetModule c uri module) uri) =
          AggregateState contribute (Delete c uri)"
    unfolding state by (auto simp: GetAllModules_def SetModule_def)
  then show ?thesis
    using state [of c]
    by (simp add: recompute_def getter_defs GetAllDiagnosticsForURI_def GetAllFiles_def
          GetAllModules_def GetAllBuiltInPositions_def Delete_eq)
qed

end
